theory Spec2Isabelle
  imports Main
begin

text \<open>
  A shallow embedding of the card-input validation and of the error classification of the
  Vizion Gateway web SDK. The repository holds two generations of the SDK side by side:
  one built on \<^verbatim>\<open>client.ts\<close>, \<^verbatim>\<open>errors.ts\<close>, \<^verbatim>\<open>utils.ts\<close> and
  \<^verbatim>\<open>paymentForm.ts\<close>, the other on \<^verbatim>\<open>services/payment-service.ts\<close>,
  \<^verbatim>\<open>utils/errors.ts\<close> and \<^verbatim>\<open>components/payment-form.ts\<close>. Both are modelled,
  each under the names of its own sources.
\<close>

section \<open>Strings\<close>

text \<open>
  A JavaScript string is modelled as a \<^typ>\<open>string\<close>, one \<^typ>\<open>char\<close> per code unit
  below 256. The regular expressions of the sources distinguish only the ASCII digits
  (\<^verbatim>\<open>\D\<close>, \<^verbatim>\<open>[0-9]\<close>) and white space (\<^verbatim>\<open>\s\<close>); every other code unit is
  treated alike by them.
\<close>

definition is_digit :: "char \<Rightarrow> bool" where
  \<comment> \<open>the class \<^verbatim>\<open>\d\<close>: the code units 0x30 to 0x39\<close>
  "is_digit c = (48 \<le> (of_char c :: nat) \<and> (of_char c :: nat) \<le> 57)"

definition is_space :: "char \<Rightarrow> bool" where
  \<comment> \<open>the class \<^verbatim>\<open>\s\<close> among the code units below 256: tab, line feed, vertical tab,
      form feed, carriage return, space and no-break space\<close>
  "is_space c = ((of_char c :: nat) \<in> {9, 10, 11, 12, 13, 32, 160})"

definition replace_non_digits :: "string \<Rightarrow> string" where
  \<comment> \<open>\<^verbatim>\<open>s.replace(/\D/g, '')\<close> (utils.ts lines 54 and 93, payment-form.ts line 282)\<close>
  "replace_non_digits s = filter is_digit s"

definition replace_spaces :: "string \<Rightarrow> string" where
  \<comment> \<open>\<^verbatim>\<open>s.replace(/\s/g, '')\<close> (payment-form.ts lines 333, 681 and 718)\<close>
  "replace_spaces s = filter (\<lambda>c. \<not> is_space c) s"

definition parseInt :: "char \<Rightarrow> nat" where
  \<comment> \<open>\<^verbatim>\<open>parseInt(digits.charAt(i), 10)\<close> on a digit\<close>
  "parseInt c = of_char c - 48"

section \<open>utils.ts: the Luhn validator\<close>

text \<open>
  The loop of \<^verbatim>\<open>validateCardNumber\<close> runs \<^verbatim>\<open>i\<close> from \<^verbatim>\<open>digits.length - 1\<close> down to 0.
  The second argument of \<open>luhn_loop\<close> is \<^verbatim>\<open>i + 1\<close>, the number of digits still to visit;
  the accumulator the source calls \<^verbatim>\<open>sum\<close> is \<open>sum_acc\<close> here.
\<close>

fun luhn_loop :: "string \<Rightarrow> nat \<Rightarrow> nat \<Rightarrow> bool \<Rightarrow> nat" where
  "luhn_loop digits 0 sum_acc shouldDouble = sum_acc"
| "luhn_loop digits (Suc i) sum_acc shouldDouble =
     (let digit = parseInt (digits ! i);
          digit = (if shouldDouble
                   then (let digit = digit * 2 in if digit > 9 then digit - 9 else digit)
                   else digit)
      in luhn_loop digits i (sum_acc + digit) (\<not> shouldDouble))"

definition validateCardNumber :: "string \<Rightarrow> bool" where
  "validateCardNumber cardNumber =
     (if cardNumber = [] then False
      else (let digits = replace_non_digits cardNumber in
            if length digits < 13 \<or> length digits > 19 then False
            else luhn_loop digits (length digits) 0 False mod 10 = 0))"

section \<open>utils.ts: card type detection\<close>

text \<open>
  The four regular expressions of \<^verbatim>\<open>detectCardType\<close> are anchored at the start of the
  string and built from literals, ranges and sets of characters only; a pattern is a list
  of alternatives, an alternative a list of atoms.
\<close>

datatype atom = Lit char | Range char char | OneOf string

fun atom_matches :: "atom \<Rightarrow> char \<Rightarrow> bool" where
  "atom_matches (Lit a) c = (c = a)"
| "atom_matches (Range lo hi) c =
     ((of_char lo :: nat) \<le> of_char c \<and> (of_char c :: nat) \<le> of_char hi)"
| "atom_matches (OneOf cs) c = (c \<in> set cs)"

fun match_seq :: "atom list \<Rightarrow> string \<Rightarrow> bool" where
  "match_seq [] s = True"
| "match_seq (a # as) [] = False"
| "match_seq (a # as) (c # cs) = (atom_matches a c \<and> match_seq as cs)"

definition test :: "atom list list \<Rightarrow> string \<Rightarrow> bool" where
  \<comment> \<open>\<^verbatim>\<open>pattern.test(digits)\<close>\<close>
  "test alts s = list_ex (\<lambda>alt. match_seq alt s) alts"

definition patterns :: "(string \<times> atom list list) list" where
  \<comment> \<open>the object literal of lines 96 to 101, in the order of its keys\<close>
  "patterns =
     [(''visa'', [[Lit CHR ''4'']]),
      (''mastercard'', [[Lit CHR ''5'', Range CHR ''1'' CHR ''5'']]),
      (''amex'', [[Lit CHR ''3'', OneOf ''47'']]),
      (''discover'', [[Lit CHR ''6'', Lit CHR ''0'', Lit CHR ''1'', Lit CHR ''1''],
                      [Lit CHR ''6'', Lit CHR ''5''],
                      [Lit CHR ''6'', Lit CHR ''4'', Range CHR ''4'' CHR ''9''],
                      [Lit CHR ''6'', Lit CHR ''2'', Lit CHR ''2'']])]"

fun first_match :: "(string \<times> atom list list) list \<Rightarrow> string \<Rightarrow> string option" where
  \<comment> \<open>the loop over \<^verbatim>\<open>Object.entries(patterns)\<close>; \<open>None\<close> is \<^verbatim>\<open>undefined\<close>\<close>
  "first_match [] digits = None"
| "first_match ((type, pattern) # rest) digits =
     (if test pattern digits then Some type else first_match rest digits)"

definition detectCardType :: "string \<Rightarrow> string option" where
  "detectCardType cardNumber =
     (if cardNumber = [] then None
      else first_match patterns (replace_non_digits cardNumber))"

section \<open>JavaScript values\<close>

text \<open>
  A value read from a parsed body or from a caught error. The sources read such values
  through \<^verbatim>\<open>any\<close>, test them with \<^verbatim>\<open>||\<close> and hand them to the constructor of
  \<^verbatim>\<open>Error\<close>, which turns them into strings. A number is kept as the string that
  \<^verbatim>\<open>String\<close> makes of it (\<open>''0''\<close> for both zeros, \<open>''NaN''\<close>), an object or an array
  likewise.
\<close>

datatype jsvalue =
    JUndefined | JNull | JBool bool
  | JNum string
  | JStr string
  | JObject string

fun js_truthy :: "jsvalue \<Rightarrow> bool" where
  "js_truthy JUndefined = False"
| "js_truthy JNull = False"
| "js_truthy (JBool b) = b"
| "js_truthy (JNum t) = (t \<noteq> ''0'' \<and> t \<noteq> ''NaN'')"
| "js_truthy (JStr s) = (s \<noteq> [])"
| "js_truthy (JObject t) = True"

fun js_String :: "jsvalue \<Rightarrow> string" where
  \<comment> \<open>\<^verbatim>\<open>String(v)\<close>, the message of \<^verbatim>\<open>new Error(v)\<close> for a \<open>v\<close> that is not
      \<^verbatim>\<open>undefined\<close>\<close>
  "js_String JUndefined = ''undefined''"
| "js_String JNull = ''null''"
| "js_String (JBool b) = (if b then ''true'' else ''false'')"
| "js_String (JNum t) = t"
| "js_String (JStr s) = s"
| "js_String (JObject t) = t"

definition js_or_value :: "jsvalue \<Rightarrow> jsvalue \<Rightarrow> jsvalue" where
  \<comment> \<open>\<^verbatim>\<open>v || d\<close>\<close>
  "js_or_value v d = (if js_truthy v then v else d)"

datatype 'a nullable =
    IsUndefined | IsNull
  | Data 'a  \<comment> \<open>a value whose properties can be read\<close>

fun nullish_name :: "'a nullable \<Rightarrow> string" where
  "nullish_name IsUndefined = ''undefined''"
| "nullish_name IsNull = ''null''"
| "nullish_name (Data v) = []"

definition js_or :: "string option \<Rightarrow> string \<Rightarrow> string" where
  \<comment> \<open>\<^verbatim>\<open>v || d\<close> for a property \<open>v\<close> that is a string when it is there: \<^verbatim>\<open>undefined\<close>
      (\<open>None\<close>) and the empty string are falsy\<close>
  "js_or v d = (case v of None \<Rightarrow> d | Some s \<Rightarrow> if s = [] then d else s)"

definition js_or_num :: "nat option \<Rightarrow> nat \<Rightarrow> nat" where
  \<comment> \<open>\<^verbatim>\<open>v || d\<close> for a number: \<^verbatim>\<open>undefined\<close> and 0 are falsy\<close>
  "js_or_num v d = (case v of None \<Rightarrow> d | Some n \<Rightarrow> if n = 0 then d else n)"

section \<open>errors.ts\<close>

datatype ErrorType =
    AUTHENTICATION | VALIDATION | API | NETWORK
  | PAYMENT_PROCESSING | REFUND_PROCESSING | UNKNOWN


datatype details =
    BodyErrors jsvalue  \<comment> \<open>the \<^verbatim>\<open>errors\<close> field of a response body\<close>
  | Caught string       \<comment> \<open>a caught value that is no VizionGatewayError, by its message\<close>

record VizionGatewayError =
  message :: string
  etype :: ErrorType              \<comment> \<open>the field \<^verbatim>\<open>type\<close>\<close>
  details :: "details option"     \<comment> \<open>\<open>None\<close> is \<^verbatim>\<open>undefined\<close>\<close>
  statusCode :: "nat option"

definition new_VizionGatewayError ::
  "string \<Rightarrow> ErrorType \<Rightarrow> details option \<Rightarrow> nat option \<Rightarrow> VizionGatewayError" where
  "new_VizionGatewayError m t d c = \<lparr>message = m, etype = t, details = d, statusCode = c\<rparr>"

datatype thrown =
    VGE VizionGatewayError   \<comment> \<open>\<^verbatim>\<open>error instanceof VizionGatewayError\<close>\<close>
  | Other string             \<comment> \<open>any other thrown value, by its message\<close>

definition TypeError_read :: "'a nullable \<Rightarrow> string \<Rightarrow> thrown" where
  \<comment> \<open>the TypeError of reading the property \<open>prop\<close> of \<^verbatim>\<open>null\<close> or \<^verbatim>\<open>undefined\<close>, with
      the message V8 gives it\<close>
  "TypeError_read v prop =
     Other (''Cannot read properties of '' @ nullish_name v
            @ '' (reading '' @ [CHR 0x27] @ prop @ [CHR 0x27] @ '')'')"

section \<open>client.ts\<close>

text \<open>
  What the response interceptor receives. \<^verbatim>\<open>error.response.data\<close> is \<^verbatim>\<open>null\<close>,
  \<^verbatim>\<open>undefined\<close> or a value of which the interceptor reads the properties \<^verbatim>\<open>message\<close>
  and \<^verbatim>\<open>errors\<close>; a property that is not there is \<open>JUndefined\<close>, and a body that is a
  string, a number or a boolean has neither.
\<close>

record ResponseData =
  data_message :: jsvalue
  data_errors :: jsvalue

record AxiosError =
  response :: "(nat \<times> ResponseData nullable) option"
    \<comment> \<open>\<^verbatim>\<open>error.response\<close>: status and data\<close>
  request :: bool             \<comment> \<open>whether \<^verbatim>\<open>error.request\<close> is set\<close>
  error_message :: jsvalue    \<comment> \<open>\<^verbatim>\<open>error.message\<close>\<close>

definition as_details :: "jsvalue \<Rightarrow> details option" where
  \<comment> \<open>the third argument of the constructor, \<^verbatim>\<open>(data as any).errors\<close>\<close>
  "as_details v = (if v = JUndefined then None else Some (BodyErrors v))"

definition response_interceptor :: "AxiosError \<Rightarrow> thrown" where
  \<comment> \<open>the rejection handler of lines 45 to 82: what the promise it returns is rejected
      with, a VizionGatewayError or the TypeError of reading \<^verbatim>\<open>message\<close> of a body that is
      \<^verbatim>\<open>null\<close> or \<^verbatim>\<open>undefined\<close>\<close>
  "response_interceptor error =
     (case response error of
        Some (status, data) \<Rightarrow>
          if status = 401 then
            VGE (new_VizionGatewayError
                   ''Authentication failed. Check your API key and merchant ID.''
                   AUTHENTICATION None None)
          else if status = 400 then
            (case data of
               Data d \<Rightarrow>
                 VGE (new_VizionGatewayError
                        (js_String (js_or_value (data_message d)
                                      (JStr ''Invalid request parameters'')))
                        VALIDATION (as_details (data_errors d)) None)
             | _ \<Rightarrow> TypeError_read data ''message'')
          else
            (case data of
               Data d \<Rightarrow>
                 VGE (new_VizionGatewayError
                        (js_String (js_or_value (data_message d)
                                      (JStr ''An error occurred while processing your request'')))
                        API (as_details (data_errors d)) None)
             | _ \<Rightarrow> TypeError_read data ''message'')
      | None \<Rightarrow>
          if request error then
            VGE (new_VizionGatewayError ''Network error. Please check your connection.''
                   NETWORK None None)
          else
            VGE (new_VizionGatewayError
                   (js_String (js_or_value (error_message error)
                                 (JStr ''An unexpected error occurred'')))
                   UNKNOWN None None))"

text \<open>
  A request through \<^verbatim>\<open>this.http\<close> either is fulfilled with a response, whose \<^verbatim>\<open>data\<close> is
  \<^verbatim>\<open>null\<close>, \<^verbatim>\<open>undefined\<close> or a value with the property the operation reads, or is
  rejected with an error that goes through the interceptor.
\<close>

datatype 'a transport = Fulfilled "'a nullable" | Rejected AxiosError

definition http :: "'a transport \<Rightarrow> thrown + 'a nullable" where
  "http outcome =
     (case outcome of
        Fulfilled data \<Rightarrow> Inr data
      | Rejected error \<Rightarrow> Inl (response_interceptor error))"

definition catch_block :: "string \<Rightarrow> ErrorType \<Rightarrow> thrown \<Rightarrow> VizionGatewayError" where
  \<comment> \<open>the catch block the four operations share but for its message and type\<close>
  "catch_block m t error =
     (case error of
        VGE e \<Rightarrow> e
      | Other cause \<Rightarrow> new_VizionGatewayError m t (Some (Caught cause)) None)"

definition try_read ::
  "string \<Rightarrow> ErrorType \<Rightarrow> string \<Rightarrow> thrown + 'a nullable \<Rightarrow> VizionGatewayError + 'a" where
  \<comment> \<open>the try block: await the request, read the property \<open>prop\<close> of \<^verbatim>\<open>response.data\<close>;
      whatever is thrown on the way goes through the catch block\<close>
  "try_read m t prop awaited =
     (case awaited of
        Inl error \<Rightarrow> Inl (catch_block m t error)
      | Inr (Data v) \<Rightarrow> Inr v
      | Inr data \<Rightarrow> Inl (catch_block m t (TypeError_read data prop)))"

text \<open>
  The argument of each operation is what awaiting its request delivers; the operation
  returns the error it throws (\<open>Inl\<close>) or its result (\<open>Inr\<close>).
\<close>

definition processCardPayment :: "thrown + 'a nullable \<Rightarrow> VizionGatewayError + 'a" where
  "processCardPayment awaited =
     try_read ''Failed to process card payment'' PAYMENT_PROCESSING ''transaction'' awaited"

definition getTransaction :: "thrown + 'a nullable \<Rightarrow> VizionGatewayError + 'a" where
  "getTransaction awaited =
     try_read ''Failed to retrieve transaction'' API ''transaction'' awaited"

definition listTransactions :: "thrown + 'a nullable \<Rightarrow> VizionGatewayError + 'a" where
  "listTransactions awaited =
     try_read ''Failed to list transactions'' API ''transactions'' awaited"

definition refundTransaction :: "thrown + 'a nullable \<Rightarrow> VizionGatewayError + 'a" where
  "refundTransaction awaited =
     try_read ''Failed to process refund'' REFUND_PROCESSING ''transaction'' awaited"

section \<open>utils/errors.ts and services/payment-service.ts\<close>

definition AUTHENTICATION_ERROR :: string where "AUTHENTICATION_ERROR = ''authentication_error''"
definition VALIDATION_ERROR :: string where "VALIDATION_ERROR = ''validation_error''"
definition PAYMENT_PROCESSING_ERROR :: string where
  "PAYMENT_PROCESSING_ERROR = ''payment_processing_error''"
definition TRANSACTION_RETRIEVAL_ERROR :: string where
  "TRANSACTION_RETRIEVAL_ERROR = ''transaction_retrieval_error''"
definition REFUND_PROCESSING_ERROR :: string where
  "REFUND_PROCESSING_ERROR = ''refund_processing_error''"
definition NETWORK_ERROR :: string where "NETWORK_ERROR = ''network_error''"
definition SERVER_ERROR :: string where "SERVER_ERROR = ''server_error''"
definition UNKNOWN_ERROR :: string where "UNKNOWN_ERROR = ''unknown_error''"

record svc_VizionGatewayError =
  svc_message :: string
  code :: string
  svc_statusCode :: nat

definition svc_new_VizionGatewayError :: "string \<Rightarrow> string \<Rightarrow> nat \<Rightarrow> svc_VizionGatewayError" where
  "svc_new_VizionGatewayError m c s = \<lparr>svc_message = m, code = c, svc_statusCode = s\<rparr>"

datatype svc_thrown = Svc_VGE svc_VizionGatewayError | Svc_Other string

record svc_ResponseData =
  svc_data_message :: "string option"
  svc_data_code :: "string option"

record svc_AxiosError =
  svc_response :: "(nat \<times> svc_ResponseData option) option"
    \<comment> \<open>\<^verbatim>\<open>error.response\<close>: status and data, the data \<open>None\<close> when it is falsy\<close>

definition svc_error_message :: "string option \<Rightarrow> string" where
  \<comment> \<open>the message of \<^verbatim>\<open>new Error(m)\<close>: empty when \<open>m\<close> is \<^verbatim>\<open>undefined\<close>\<close>
  "svc_error_message m = (case m of None \<Rightarrow> [] | Some s \<Rightarrow> s)"

definition svc_response_interceptor :: "svc_AxiosError \<Rightarrow> svc_VizionGatewayError" where
  \<comment> \<open>the rejection handler of lines 34 to 41\<close>
  "svc_response_interceptor error =
     (let errorResponse =
            (case Option.bind (svc_response error) snd of
               Some data \<Rightarrow> data
             | None \<Rightarrow> \<lparr>svc_data_message = Some ''Unknown error occurred'',
                        svc_data_code = None\<rparr>)
      in svc_new_VizionGatewayError
           (svc_error_message (svc_data_message errorResponse))
           (js_or (svc_data_code errorResponse) ''unknown_error'')
           (js_or_num (map_option fst (svc_response error)) 500))"

datatype 'a svc_transport = Svc_Fulfilled 'a | Svc_Rejected svc_AxiosError

definition svc_apiClient :: "'a svc_transport \<Rightarrow> svc_thrown + 'a" where
  "svc_apiClient outcome =
     (case outcome of
        Svc_Fulfilled data \<Rightarrow> Inr data
      | Svc_Rejected error \<Rightarrow> Inl (Svc_VGE (svc_response_interceptor error)))"

definition svc_catch_block :: "string \<Rightarrow> string \<Rightarrow> svc_thrown \<Rightarrow> svc_VizionGatewayError" where
  "svc_catch_block m c error =
     (case error of
        Svc_VGE e \<Rightarrow> e
      | Svc_Other cause \<Rightarrow> svc_new_VizionGatewayError m c 500)"

definition svc_try :: "string \<Rightarrow> string \<Rightarrow> svc_thrown + 'a \<Rightarrow> svc_VizionGatewayError + 'a" where
  "svc_try m c awaited =
     (case awaited of
        Inl error \<Rightarrow> Inl (svc_catch_block m c error)
      | Inr data \<Rightarrow> Inr data)"

definition svc_processCardPayment :: "svc_thrown + 'a \<Rightarrow> svc_VizionGatewayError + 'a" where
  "svc_processCardPayment awaited =
     svc_try ''Failed to process card payment'' PAYMENT_PROCESSING_ERROR awaited"

definition svc_getTransaction :: "svc_thrown + 'a \<Rightarrow> svc_VizionGatewayError + 'a" where
  "svc_getTransaction awaited =
     svc_try ''Failed to retrieve transaction'' TRANSACTION_RETRIEVAL_ERROR awaited"

definition svc_listTransactions :: "svc_thrown + 'a \<Rightarrow> svc_VizionGatewayError + 'a" where
  "svc_listTransactions awaited =
     svc_try ''Failed to list transactions'' TRANSACTION_RETRIEVAL_ERROR awaited"

definition svc_processRefund :: "svc_thrown + 'a \<Rightarrow> svc_VizionGatewayError + 'a" where
  "svc_processRefund awaited =
     svc_try ''Failed to process refund'' REFUND_PROCESSING_ERROR awaited"

section \<open>paymentForm.ts\<close>

type_synonym TransactionResult = string
  \<comment> \<open>a result of the gateway, by its transaction id\<close>

record CardPaymentDetails =
  cardNumber :: string
  expiryMonth :: string  \<comment> \<open>the text that \<^verbatim>\<open>parseInt\<close> reads\<close>
  expiryYear :: string   \<comment> \<open>the text that \<^verbatim>\<open>parseInt\<close> reads\<close>
  cvv :: string
  cardholderName :: string

datatype callback = OnSuccess TransactionResult | OnError VizionGatewayError

text \<open>
  The state of a rendered form: the flag, the values of the five inputs, the custom
  validity message of the card number input, the error element and the submit button.
  Three fields record what the form does to its surroundings: \<open>calls\<close>, the calls of
  \<^verbatim>\<open>client.processCardPayment\<close> in their order; \<open>pending\<close>, how many of them have not
  settled; \<open>callbacks\<close>, the calls of \<^verbatim>\<open>onSuccess\<close> and \<^verbatim>\<open>onError\<close>.
\<close>

record PaymentForm =
  isSubmitting :: bool
  cardholderName_value :: string
  cardNumber_value :: string
  cardNumber_customValidity :: string
  cardNumber_cardType :: "string option"  \<comment> \<open>the attribute \<^verbatim>\<open>data-card-type\<close>\<close>
  expiryMonth_value :: string
  expiryYear_value :: string
  cvv_value :: string
  errorElement_text :: string
  errorElement_shown :: bool
  submitButton_disabled :: bool
  submitButton_text :: string
  calls :: "CardPaymentDetails list"
  pending :: nat
  callbacks :: "callback list"

definition render :: PaymentForm where
  \<comment> \<open>the form as the constructor leaves it\<close>
  "render =
     \<lparr>isSubmitting = False, cardholderName_value = [], cardNumber_value = [],
      cardNumber_customValidity = [], cardNumber_cardType = None,
      expiryMonth_value = [], expiryYear_value = [], cvv_value = [],
      errorElement_text = [], errorElement_shown = False,
      submitButton_disabled = False, submitButton_text = ''Pay Now'',
      calls = [], pending = 0, callbacks = []\<rparr>"

fun chunks4 :: "string \<Rightarrow> string list" where
  \<comment> \<open>\<^verbatim>\<open>value.match(/.{1,4}/g)\<close> on a string of digits\<close>
  "chunks4 [] = []"
| "chunks4 (c # cs) = take 4 (c # cs) # chunks4 (drop 4 (c # cs))"

fun join_space :: "string list \<Rightarrow> string" where
  \<comment> \<open>\<^verbatim>\<open>parts.join(' ')\<close>\<close>
  "join_space [] = []"
| "join_space [p] = p"
| "join_space (p # q # ps) = p @ '' '' @ join_space (q # ps)"

definition handleCardNumberInput :: "string \<Rightarrow> PaymentForm \<Rightarrow> PaymentForm" where
  \<comment> \<open>the first argument is the value of the input when the event fires\<close>
  "handleCardNumberInput input_value f =
     (let v = replace_non_digits input_value;
          v = (if length v > 0 then join_space (chunks4 v) else v);
          f = f\<lparr>cardNumber_value := v\<rparr>
      in case detectCardType v of
           Some cardType \<Rightarrow> f\<lparr>cardNumber_cardType := Some cardType\<rparr>
         | None \<Rightarrow> f)"

definition PaymentForm_validateCardNumber :: "PaymentForm \<Rightarrow> PaymentForm" where
  \<comment> \<open>the method \<^verbatim>\<open>validateCardNumber\<close> of the form, bound to the blur event of the card
      number input\<close>
  "PaymentForm_validateCardNumber f =
     (let v = replace_spaces (cardNumber_value f) in
      if v \<noteq> [] \<and> \<not> validateCardNumber v
      then f\<lparr>cardNumber_customValidity := ''Invalid card number''\<rparr>
      else f\<lparr>cardNumber_customValidity := []\<rparr>)"

definition pattern_matches :: "(char \<Rightarrow> bool) \<Rightarrow> nat \<Rightarrow> nat \<Rightarrow> string \<Rightarrow> bool" where
  \<comment> \<open>the attribute \<^verbatim>\<open>pattern="[...]{lo,hi}"\<close>, matched against the whole value\<close>
  "pattern_matches cls lo hi v = (list_all cls v \<and> lo \<le> length v \<and> length v \<le> hi)"

definition input_valid :: "(string \<Rightarrow> bool) \<Rightarrow> string \<Rightarrow> string \<Rightarrow> bool" where
  \<comment> \<open>a required input with a pattern and a custom validity message: the value is there,
      it matches the pattern and there is no custom message\<close>
  "input_valid pattern custom v = (v \<noteq> [] \<and> pattern v \<and> custom = [])"

definition checkValidity :: "PaymentForm \<Rightarrow> bool" where
  \<comment> \<open>\<^verbatim>\<open>formElement.checkValidity()\<close> with the attributes \<^verbatim>\<open>required\<close> and \<^verbatim>\<open>pattern\<close>
      set in lines 544 to 579; \<^verbatim>\<open>maxLength\<close> limits what can be typed and is not a part of
      this check\<close>
  "checkValidity f =
     (input_valid (\<lambda>v. True) [] (cardholderName_value f)
      \<and> input_valid (pattern_matches (\<lambda>c. is_digit c \<or> is_space c) 13 19)
           (cardNumber_customValidity f) (cardNumber_value f)
      \<and> input_valid (pattern_matches is_digit 1 2) [] (expiryMonth_value f)
      \<and> input_valid (pattern_matches is_digit 4 4) [] (expiryYear_value f)
      \<and> input_valid (pattern_matches is_digit 3 4) [] (cvv_value f))"

definition clearError :: "PaymentForm \<Rightarrow> PaymentForm" where
  "clearError f = f\<lparr>errorElement_text := [], errorElement_shown := False\<rparr>"

definition showError :: "VizionGatewayError \<Rightarrow> PaymentForm \<Rightarrow> PaymentForm" where
  "showError error f = f\<lparr>errorElement_text := message error, errorElement_shown := True\<rparr>"

definition reset :: "PaymentForm \<Rightarrow> PaymentForm" where
  \<comment> \<open>\<^verbatim>\<open>formElement.reset()\<close>: the inputs return to their initial values\<close>
  "reset f =
     f\<lparr>cardholderName_value := [], cardNumber_value := [], expiryMonth_value := [],
       expiryYear_value := [], cvv_value := []\<rparr>"

definition handleSubmit :: "PaymentForm \<Rightarrow> PaymentForm" where
  \<comment> \<open>\<^verbatim>\<open>handleSubmit\<close> up to its \<^verbatim>\<open>await\<close>\<close>
  "handleSubmit f =
     (if isSubmitting f then f
      else
        (let f = clearError f in
         if \<not> checkValidity f then f
         else
           (let f = f\<lparr>isSubmitting := True, submitButton_disabled := True,
                      submitButton_text := ''Processing...''\<rparr>;
                cardDetails =
                  \<lparr>cardNumber = replace_spaces (cardNumber_value f),
                   expiryMonth = expiryMonth_value f,
                   expiryYear = expiryYear_value f,
                   cvv = cvv_value f,
                   cardholderName = cardholderName_value f\<rparr>
            in f\<lparr>calls := calls f @ [cardDetails], pending := Suc (pending f)\<rparr>)))"

definition handleSubmit_settled ::
  "VizionGatewayError + TransactionResult \<Rightarrow> PaymentForm \<Rightarrow> PaymentForm" where
  \<comment> \<open>\<^verbatim>\<open>handleSubmit\<close> from its \<^verbatim>\<open>await\<close> on, once the call has settled: the rest of the try
      block or the catch block, then the finally block\<close>
  "handleSubmit_settled outcome f =
     (let f = (case outcome of
                 Inr result \<Rightarrow> reset (f\<lparr>callbacks := callbacks f @ [OnSuccess result]\<rparr>)
               | Inl error \<Rightarrow> (showError error f)\<lparr>callbacks := callbacks f @ [OnError error]\<rparr>)
      in f\<lparr>isSubmitting := False, submitButton_disabled := False,
           submitButton_text := ''Pay Now'', pending := pending f - 1\<rparr>)"

datatype field = CardholderName | ExpiryMonth | ExpiryYear | Cvv

datatype event =
    Input string   \<comment> \<open>the card number input receives this value\<close>
  | Edit field string  \<comment> \<open>another input receives this value\<close>
  | Blur           \<comment> \<open>the card number input loses the focus\<close>
  | Submit         \<comment> \<open>the form receives a submit event\<close>
  | Settled "VizionGatewayError + TransactionResult"
      \<comment> \<open>the call of \<^verbatim>\<open>processCardPayment\<close> that is awaited settles\<close>

fun edit :: "field \<Rightarrow> string \<Rightarrow> PaymentForm \<Rightarrow> PaymentForm" where
  "edit CardholderName v f = f\<lparr>cardholderName_value := v\<rparr>"
| "edit ExpiryMonth v f = f\<lparr>expiryMonth_value := v\<rparr>"
| "edit ExpiryYear v f = f\<lparr>expiryYear_value := v\<rparr>"
| "edit Cvv v f = f\<lparr>cvv_value := v\<rparr>"

fun step :: "PaymentForm \<Rightarrow> event \<Rightarrow> PaymentForm" where
  "step f (Input v) = handleCardNumberInput v f"
| "step f (Edit fld v) = edit fld v f"
| "step f Blur = PaymentForm_validateCardNumber f"
| "step f Submit = handleSubmit f"
| "step f (Settled outcome) = (if pending f = 0 then f else handleSubmit_settled outcome f)"

definition run :: "PaymentForm \<Rightarrow> event list \<Rightarrow> PaymentForm" where
  "run f evs = foldl step f evs"

section \<open>components/payment-form.ts\<close>

record PaymentRequest =
  number :: string
  card_expiryMonth :: string
  card_expiryYear :: string
  cvc :: string
  holderName :: string

datatype svc_callback = Svc_OnSuccess string | Svc_OnError svc_VizionGatewayError

text \<open>
  The state of the form of the other generation. \<open>svc_mounted\<close> says that
  \<^verbatim>\<open>formElement\<close> and \<^verbatim>\<open>submitButton\<close> are set; \<open>svc_pay_label\<close> is the text
  \<^verbatim>\<open>Pay\<close> followed by the formatted amount, fixed by the configuration. The request
  carries, besides the card, the fields of the configuration unchanged; they are left out.
\<close>

record svc_PaymentForm =
  svc_mounted :: bool
  svc_pay_label :: string
  svc_card_number_value :: string
  svc_expiry_value :: string
  svc_cvc_value :: string
  svc_cardholder_name_value :: string
  svc_submitButton_disabled :: bool
  svc_submitButton_text :: string
  svc_error_shown :: "string option"
  svc_calls :: "PaymentRequest list"
  svc_pending :: nat
  svc_callbacks :: "svc_callback list"

fun split_char :: "char \<Rightarrow> string \<Rightarrow> string list" where
  \<comment> \<open>\<^verbatim>\<open>s.split(sep)\<close> for a separator of one character\<close>
  "split_char sep [] = [[]]"
| "split_char sep (c # cs) =
     (if c = sep then [] # split_char sep cs
      else (case split_char sep cs of
              p # ps \<Rightarrow> (c # p) # ps
            | [] \<Rightarrow> [[c]]))"

definition trim :: "string \<Rightarrow> string" where
  "trim s = rev (dropWhile is_space (rev (dropWhile is_space s)))"

definition parseExpiry :: "string \<Rightarrow> string \<times> string" where
  "parseExpiry expiry =
     (let parts = map trim (split_char CHR ''/'' expiry);
          month = (case parts of m # _ \<Rightarrow> m | [] \<Rightarrow> []);
          year = (case parts of _ # y # _ \<Rightarrow> y | _ \<Rightarrow> [])
      in (month, year))"

definition svc_handleSubmit :: "svc_PaymentForm \<Rightarrow> svc_PaymentForm" where
  \<comment> \<open>\<^verbatim>\<open>handleSubmit\<close> up to its \<^verbatim>\<open>await\<close>\<close>
  "svc_handleSubmit f =
     (if \<not> svc_mounted f then f
      else
        (let f = f\<lparr>svc_submitButton_disabled := True,
                   svc_submitButton_text := ''Processing...''\<rparr>;
             card_number = replace_spaces (svc_card_number_value f);
             (expiry_month, expiry_year) = parseExpiry (svc_expiry_value f);
             paymentRequest =
               \<lparr>number = card_number, card_expiryMonth = expiry_month,
                card_expiryYear = expiry_year, cvc = svc_cvc_value f,
                holderName = svc_cardholder_name_value f\<rparr>
         in f\<lparr>svc_calls := svc_calls f @ [paymentRequest],
              svc_pending := Suc (svc_pending f)\<rparr>))"

definition svc_reset :: "svc_PaymentForm \<Rightarrow> svc_PaymentForm" where
  "svc_reset f =
     f\<lparr>svc_card_number_value := [], svc_expiry_value := [], svc_cvc_value := [],
       svc_cardholder_name_value := []\<rparr>"

definition svc_handleSubmit_settled ::
  "svc_thrown + string \<Rightarrow> svc_PaymentForm \<Rightarrow> svc_PaymentForm" where
  \<comment> \<open>\<^verbatim>\<open>handleSubmit\<close> from its \<^verbatim>\<open>await\<close> on\<close>
  "svc_handleSubmit_settled outcome f =
     (let f = (case outcome of
                 Inr paymentResponse \<Rightarrow>
                   svc_reset
                     (f\<lparr>svc_callbacks := svc_callbacks f @ [Svc_OnSuccess paymentResponse]\<rparr>)
               | Inl (Svc_VGE error) \<Rightarrow>
                   f\<lparr>svc_callbacks := svc_callbacks f @ [Svc_OnError error],
                     svc_error_shown := Some (svc_message error)\<rparr>
               | Inl (Svc_Other cause) \<Rightarrow>
                   f\<lparr>svc_callbacks := svc_callbacks f @
                        [Svc_OnError (svc_new_VizionGatewayError
                           (js_or (Some cause) ''An unknown error occurred'')
                           UNKNOWN_ERROR 500)],
                     svc_error_shown := Some cause\<rparr>)
      in f\<lparr>svc_submitButton_disabled := False, svc_submitButton_text := svc_pay_label f,
           svc_pending := svc_pending f - 1\<rparr>)"

definition svc_mount :: "string \<Rightarrow> svc_PaymentForm" where
  \<comment> \<open>the form after \<^verbatim>\<open>mount\<close>, for a given label of the button\<close>
  "svc_mount label =
     \<lparr>svc_mounted = True, svc_pay_label = label, svc_card_number_value = [],
      svc_expiry_value = [], svc_cvc_value = [], svc_cardholder_name_value = [],
      svc_submitButton_disabled = False, svc_submitButton_text = label,
      svc_error_shown = None, svc_calls = [], svc_pending = 0, svc_callbacks = []\<rparr>"

section \<open>The specification's wording, as definitions\<close>

text \<open>
  The definitions of this section follow the words of the specification, not the code;
  the theorems below compare them with the definitions taken from the sources.
\<close>

definition spec_luhn_term :: "nat \<Rightarrow> nat \<Rightarrow> nat" where
  \<comment> \<open>the contribution of the digit \<open>d\<close> at position \<open>k\<close> counted from the right, the
      rightmost digit at position 0: every second digit is doubled, and 9 is subtracted
      from a doubled digit that exceeds 9\<close>
  "spec_luhn_term k d = (if odd k then (if 2 * d > 9 then 2 * d - 9 else 2 * d) else d)"

definition spec_luhn_checksum :: "string \<Rightarrow> nat" where
  "spec_luhn_checksum ds =
     sum_list (map (\<lambda>(k, c). spec_luhn_term k (parseInt c)) (enumerate 0 (rev ds))) mod 10"

definition digits_value :: "string \<Rightarrow> nat" where
  \<comment> \<open>the number a string of digits denotes\<close>
  "digits_value ds = foldl (\<lambda>n c. 10 * n + parseInt c) 0 ds"

definition leading_in :: "nat \<Rightarrow> nat \<Rightarrow> nat \<Rightarrow> string \<Rightarrow> bool" where
  \<comment> \<open>the first \<open>n\<close> digits exist and form a number between \<open>lo\<close> and \<open>hi\<close>\<close>
  "leading_in n lo hi ds =
     (n \<le> length ds \<and> lo \<le> digits_value (take n ds) \<and> digits_value (take n ds) \<le> hi)"

definition spec_detectBrand :: "string \<Rightarrow> string option" where
  "spec_detectBrand ds =
     (if leading_in 1 4 4 ds then Some ''visa''
      else if leading_in 2 51 55 ds then Some ''mastercard''
      else if leading_in 2 34 34 ds \<or> leading_in 2 37 37 ds then Some ''amex''
      else if leading_in 4 6011 6011 ds \<or> leading_in 2 65 65 ds
              \<or> leading_in 3 644 649 ds \<or> leading_in 3 622 622 ds then Some ''discover''
      else None)"


section \<open>Digits\<close>

lemma of_char_digit: "is_digit c \<Longrightarrow> (of_char c :: nat) = parseInt c + 48"
  by (auto simp: is_digit_def parseInt_def)

lemma parseInt_le: "is_digit c \<Longrightarrow> parseInt c \<le> 9"
  by (auto simp: is_digit_def parseInt_def)

lemma parseInt_inj: "is_digit c \<Longrightarrow> is_digit d \<Longrightarrow> (c = d) = (parseInt c = parseInt d)"
proof
  assume d: "is_digit c" "is_digit d" and e: "parseInt c = parseInt d"
  then have "(of_char c :: nat) = of_char d" by (simp add: of_char_digit)
  then show "c = d" by simp
qed simp

lemma digit_literals:
  "is_digit CHR ''0''" "parseInt CHR ''0'' = 0"
  "is_digit CHR ''1''" "parseInt CHR ''1'' = 1"
  "is_digit CHR ''2''" "parseInt CHR ''2'' = 2"
  "is_digit CHR ''3''" "parseInt CHR ''3'' = 3"
  "is_digit CHR ''4''" "parseInt CHR ''4'' = 4"
  "is_digit CHR ''5''" "parseInt CHR ''5'' = 5"
  "is_digit CHR ''6''" "parseInt CHR ''6'' = 6"
  "is_digit CHR ''7''" "parseInt CHR ''7'' = 7"
  "is_digit CHR ''8''" "parseInt CHR ''8'' = 8"
  "is_digit CHR ''9''" "parseInt CHR ''9'' = 9"
  by (simp_all add: is_digit_def parseInt_def)

lemma digit_of_value:
  assumes "is_digit c" "is_digit k" "parseInt c = parseInt k"
  shows "c = k"
  using assms by (simp add: parseInt_inj)

lemma is_digit_chars: "is_digit c = (c \<in> set ''0123456789'')"
proof
  assume d: "is_digit c"
  have "parseInt c \<in> {0, 1, 2, 3, 4, 5, 6, 7, 8, 9}" using parseInt_le [OF d] by auto
  then consider "parseInt c = 0" | "parseInt c = 1" | "parseInt c = 2" | "parseInt c = 3"
    | "parseInt c = 4" | "parseInt c = 5" | "parseInt c = 6" | "parseInt c = 7"
    | "parseInt c = 8" | "parseInt c = 9" by auto
  then show "c \<in> set ''0123456789''"
  proof cases
    case 1
    have "c = CHR ''0''" by (rule digit_of_value [OF d]) (simp_all add: digit_literals 1)
    then show ?thesis by simp
  next
    case 2
    have "c = CHR ''1''" by (rule digit_of_value [OF d]) (simp_all add: digit_literals 2)
    then show ?thesis by simp
  next
    case 3
    have "c = CHR ''2''" by (rule digit_of_value [OF d]) (simp_all add: digit_literals 3)
    then show ?thesis by simp
  next
    case 4
    have "c = CHR ''3''" by (rule digit_of_value [OF d]) (simp_all add: digit_literals 4)
    then show ?thesis by simp
  next
    case 5
    have "c = CHR ''4''" by (rule digit_of_value [OF d]) (simp_all add: digit_literals 5)
    then show ?thesis by simp
  next
    case 6
    have "c = CHR ''5''" by (rule digit_of_value [OF d]) (simp_all add: digit_literals 6)
    then show ?thesis by simp
  next
    case 7
    have "c = CHR ''6''" by (rule digit_of_value [OF d]) (simp_all add: digit_literals 7)
    then show ?thesis by simp
  next
    case 8
    have "c = CHR ''7''" by (rule digit_of_value [OF d]) (simp_all add: digit_literals 8)
    then show ?thesis by simp
  next
    case 9
    have "c = CHR ''8''" by (rule digit_of_value [OF d]) (simp_all add: digit_literals 9)
    then show ?thesis by simp
  next
    case 10
    have "c = CHR ''9''" by (rule digit_of_value [OF d]) (simp_all add: digit_literals 10)
    then show ?thesis by simp
  qed
next
  assume "c \<in> set ''0123456789''"
  then show "is_digit c" by (auto simp: is_digit_def)
qed

lemma replace_non_digits_idem:
  "replace_non_digits (replace_non_digits s) = replace_non_digits s"
  by (simp add: replace_non_digits_def)

lemma replace_non_digits_all: "list_all is_digit (replace_non_digits s)"
  by (simp add: replace_non_digits_def list_all_iff)

text \<open>
  \<^bold>\<open>Claim C9.\<close> Stripping the non-digits is idempotent: applied to its own result it
  returns that result unchanged. Its result holds no character other than \<open>0\<close> to \<open>9\<close>,
  and the empty string is mapped to the empty string.
\<close>

theorem C9_normalize_idempotent:
  "replace_non_digits (replace_non_digits s) = replace_non_digits s
   \<and> set (replace_non_digits s) \<subseteq> set ''0123456789''
   \<and> replace_non_digits [] = []"
proof -
  have "set (replace_non_digits s) \<subseteq> set ''0123456789''"
    using is_digit_chars by (auto simp: replace_non_digits_def)
  then show ?thesis
    by (simp add: replace_non_digits_idem) (simp add: replace_non_digits_def)
qed

section \<open>The Luhn loop computes the checksum of the specification\<close>

lemma luhn_loop_sum:
  "n \<le> length ds \<Longrightarrow> odd k0 = b \<Longrightarrow>
   luhn_loop ds n s b =
     s + sum_list (map (\<lambda>(k, c). spec_luhn_term k (parseInt c)) (enumerate k0 (rev (take n ds))))"
proof (induction n arbitrary: s b k0)
  case 0
  then show ?case by simp
next
  case (Suc n)
  from Suc.prems have lt: "n < length ds" by simp
  have tk: "rev (take (Suc n) ds) = ds ! n # rev (take n ds)"
    using lt by (simp add: take_Suc_conv_app_nth)
  have ih: "luhn_loop ds n s' (\<not> b) =
     s' + sum_list (map (\<lambda>(k, c). spec_luhn_term k (parseInt c))
                        (enumerate (Suc k0) (rev (take n ds))))" for s'
    using Suc.IH [of "Suc k0" "\<not> b" s'] lt Suc.prems(2) by simp
  show ?case
    using Suc.prems(2) by (simp add: tk ih Let_def spec_luhn_term_def mult.commute)
qed

lemma luhn_loop_checksum:
  "luhn_loop ds (length ds) 0 False mod 10 = spec_luhn_checksum ds"
  using luhn_loop_sum [of "length ds" ds 0 False 0] by (simp add: spec_luhn_checksum_def)

lemma validateCardNumber_iff:
  "validateCardNumber s \<longleftrightarrow>
     13 \<le> length (replace_non_digits s) \<and> length (replace_non_digits s) \<le> 19
     \<and> spec_luhn_checksum (replace_non_digits s) = 0"
proof (cases "s = []")
  case True
  then show ?thesis by (simp add: validateCardNumber_def replace_non_digits_def)
next
  case False
  then show ?thesis
    by (auto simp: validateCardNumber_def Let_def luhn_loop_checksum)
qed

text \<open>
  \<^bold>\<open>Claim C2.\<close> For every input string, \<open>validateCardNumber\<close> returns true exactly when the
  string of its digits has at least 13 and at most 19 characters and the Luhn checksum of
  that string is 0. The checksum visits the digits from the rightmost to the leftmost,
  leaves the rightmost undoubled, doubles every second digit, subtracts 9 from a doubled
  digit above 9, adds everything up and reduces the sum modulo 10
  (\<open>spec_luhn_checksum\<close>). In particular the answer is false for the empty string and for
  every string with fewer than 13 digits.
\<close>

theorem C2_validateCardNumber_luhn:
  "(validateCardNumber s \<longleftrightarrow>
      13 \<le> length (replace_non_digits s) \<and> length (replace_non_digits s) \<le> 19
      \<and> spec_luhn_checksum (replace_non_digits s) = 0)
   \<and> \<not> validateCardNumber []
   \<and> (length (replace_non_digits s) < 13 \<longrightarrow> \<not> validateCardNumber s)"
proof -
  have "\<not> validateCardNumber []" by (simp add: validateCardNumber_def)
  moreover have "length (replace_non_digits s) < 13 \<longrightarrow> \<not> validateCardNumber s"
    by (simp add: validateCardNumber_iff)
  ultimately show ?thesis using validateCardNumber_iff [of s] by blast
qed

theorem C2_validateCardNumber_luhn_witness:
  "length (replace_non_digits ''123'') < 13 \<and> \<not> validateCardNumber ''123''
   \<and> validateCardNumber ''4242424242424242''
   \<and> spec_luhn_checksum (replace_non_digits ''4242424242424242'') = 0
   \<and> \<not> validateCardNumber ''4242424242424241''
   \<and> spec_luhn_checksum (replace_non_digits ''4242424242424241'') \<noteq> 0"
proof -
  have a: "validateCardNumber ''4242424242424242''" by code_simp
  have b: "length (replace_non_digits ''123'') < 13" by code_simp
  have c: "\<not> validateCardNumber ''4242424242424241''" by code_simp
  have d: "13 \<le> length (replace_non_digits ''4242424242424241'')
           \<and> length (replace_non_digits ''4242424242424241'') \<le> 19" by code_simp
  show ?thesis
    using C2_validateCardNumber_luhn [of "''123''"]
          C2_validateCardNumber_luhn [of "''4242424242424242''"]
          C2_validateCardNumber_luhn [of "''4242424242424241''"] a b c d
    by simp
qed

text \<open>
  \<^bold>\<open>Claim C10.\<close> \<open>validateCardNumber\<close> is a total function on strings, and it normalises
  its argument itself: on every string, with spaces, hyphens or any other non-digit in it,
  it returns what it returns on the string with every non-digit removed.
\<close>

theorem C10_validateCardNumber_self_normalizing:
  "validateCardNumber s = validateCardNumber (replace_non_digits s)"
  by (simp add: validateCardNumber_iff replace_non_digits_idem)

section \<open>The patterns of detectCardType read as numbers\<close>

lemma dec_eq:
  fixes a b x y :: nat
  assumes "b \<le> 9" "y \<le> 9"
  shows "(10 * a + b = 10 * x + y) = (a = x \<and> b = y)"
proof
  assume eq: "10 * a + b = 10 * x + y"
  then have "(10 * a + b) div 10 = (10 * x + y) div 10" by simp
  with assms have "a = x" by simp
  with eq show "a = x \<and> b = y" by simp
qed simp

lemma dec_range:
  fixes n c q r1 r2 :: nat
  assumes "c \<le> 9" "r2 \<le> 9"
  shows "(10 * q + r1 \<le> 10 * n + c \<and> 10 * n + c \<le> 10 * q + r2)
         = (n = q \<and> r1 \<le> c \<and> c \<le> r2)"
proof
  assume h: "10 * q + r1 \<le> 10 * n + c \<and> 10 * n + c \<le> 10 * q + r2"
  have "n = q"
  proof (rule ccontr)
    assume "n \<noteq> q"
    then consider "n + 1 \<le> q" | "q + 1 \<le> n" by linarith
    then show False
    proof cases
      case 1
      then have "10 * n + 10 \<le> 10 * q" by simp
      with h assms show False by linarith
    next
      case 2
      then have "10 * q + 10 \<le> 10 * n" by simp
      with h assms show False by linarith
    qed
  qed
  with h show "n = q \<and> r1 \<le> c \<and> c \<le> r2" by simp
qed simp

lemma Lit_digit:
  assumes "is_digit c" "is_digit a"
  shows "atom_matches (Lit a) c = (parseInt c = parseInt a)"
  using assms by (simp add: parseInt_inj)

lemma Range_digit:
  assumes "is_digit c" "is_digit lo" "is_digit hi"
  shows "atom_matches (Range lo hi) c = (parseInt lo \<le> parseInt c \<and> parseInt c \<le> parseInt hi)"
  using assms by (simp add: of_char_digit)

lemma leading_in_2:
  "leading_in 2 lo hi ds =
     (case ds of a # b # r \<Rightarrow>
        lo \<le> 10 * parseInt a + parseInt b \<and> 10 * parseInt a + parseInt b \<le> hi
      | _ \<Rightarrow> False)"
  by (simp add: leading_in_def digits_value_def split: list.splits)

lemma leading_in_3:
  "leading_in 3 lo hi ds =
     (case ds of a # b # c # r \<Rightarrow>
        lo \<le> 10 * (10 * parseInt a + parseInt b) + parseInt c
        \<and> 10 * (10 * parseInt a + parseInt b) + parseInt c \<le> hi
      | _ \<Rightarrow> False)"
  by (simp add: leading_in_def digits_value_def split: list.splits)

lemma leading_in_4:
  "leading_in 4 lo hi ds =
     (case ds of a # b # c # d # r \<Rightarrow>
        lo \<le> 10 * (10 * (10 * parseInt a + parseInt b) + parseInt c) + parseInt d
        \<and> 10 * (10 * (10 * parseInt a + parseInt b) + parseInt c) + parseInt d \<le> hi
      | _ \<Rightarrow> False)"
  by (simp add: leading_in_def digits_value_def split: list.splits)

lemma visa_test:
  assumes "list_all is_digit ds"
  shows "test [[Lit CHR ''4'']] ds = leading_in 1 4 4 ds"
  using assms
  by (cases ds)
     (auto simp: test_def leading_in_def digits_value_def Lit_digit digit_literals
           simp del: atom_matches.simps)

lemma mastercard_test:
  assumes "list_all is_digit ds"
  shows "test [[Lit CHR ''5'', Range CHR ''1'' CHR ''5'']] ds = leading_in 2 51 55 ds"
proof (cases ds)
  case Nil
  then show ?thesis by (simp add: test_def leading_in_2)
next
  case (Cons a r)
  note A = this
  show ?thesis
  proof (cases r)
    case Nil
    with A show ?thesis by (simp add: test_def leading_in_2)
  next
    case (Cons b r')
    with A assms have d: "is_digit a" "is_digit b" by simp_all
    then have le: "parseInt b \<le> 9" by (simp add: parseInt_le)
    from A Cons d show ?thesis
      using dec_range [of "parseInt b" 5 5 1 "parseInt a", OF le]
      by (simp add: test_def leading_in_2 Lit_digit Range_digit digit_literals
               del: atom_matches.simps)
  qed
qed

lemma amex_test:
  assumes "list_all is_digit ds"
  shows "test [[Lit CHR ''3'', OneOf ''47'']] ds
         = (leading_in 2 34 34 ds \<or> leading_in 2 37 37 ds)"
proof (cases ds)
  case Nil
  then show ?thesis by (simp add: test_def leading_in_2)
next
  case (Cons a r)
  note A = this
  show ?thesis
  proof (cases r)
    case Nil
    with A show ?thesis by (simp add: test_def leading_in_2)
  next
    case (Cons b r')
    with A assms have d: "is_digit a" "is_digit b" by simp_all
    then have le: "parseInt b \<le> 9" by (simp add: parseInt_le)
    have m: "atom_matches (OneOf ''47'') b = (parseInt b = 4 \<or> parseInt b = 7)"
      using d(2) by (simp add: parseInt_inj digit_literals)
    from A Cons d show ?thesis
      using dec_range [of "parseInt b" 4 3 4 "parseInt a", OF le]
            dec_range [of "parseInt b" 7 3 7 "parseInt a", OF le]
      by (auto simp add: test_def leading_in_2 Lit_digit m digit_literals
               simp del: atom_matches.simps)
  qed
qed

lemma seq2_digits:
  assumes "list_all is_digit ds" "is_digit x" "is_digit y"
  shows "match_seq [Lit x, Lit y] ds =
           leading_in 2 (10 * parseInt x + parseInt y) (10 * parseInt x + parseInt y) ds"
proof -
  have le: "parseInt y \<le> 9" using assms(3) by (simp add: parseInt_le)
  consider "ds = []" | a where "ds = [a]" | a b r where "ds = a # b # r"
    by (metis list.exhaust)
  then show ?thesis
  proof cases
    case 3
    with assms have d: "is_digit a" "is_digit b" by simp_all
    then have "parseInt b \<le> 9" by (simp add: parseInt_le)
    from dec_range [of "parseInt b" "parseInt y" "parseInt x" "parseInt y" "parseInt a",
                    OF this le]
    show ?thesis using 3 d assms(2,3)
      by (auto simp add: leading_in_2 Lit_digit simp del: atom_matches.simps)
  qed (simp_all add: leading_in_2)
qed

lemma seq3_digits:
  assumes "list_all is_digit ds" "is_digit x" "is_digit y" "is_digit lo" "is_digit hi"
  shows "match_seq [Lit x, Lit y, Range lo hi] ds =
           leading_in 3 (10 * (10 * parseInt x + parseInt y) + parseInt lo)
                        (10 * (10 * parseInt x + parseInt y) + parseInt hi) ds"
proof -
  have le: "parseInt y \<le> 9" "parseInt hi \<le> 9" using assms by (simp_all add: parseInt_le)
  consider "ds = []" | a where "ds = [a]" | a b where "ds = [a, b]"
    | a b c r where "ds = a # b # c # r"
    by (metis list.exhaust)
  then show ?thesis
  proof cases
    case 4
    with assms have d: "is_digit a" "is_digit b" "is_digit c" by simp_all
    then have b: "parseInt b \<le> 9" "parseInt c \<le> 9" by (simp_all add: parseInt_le)
    from dec_range [of "parseInt c" "parseInt hi" "10 * parseInt x + parseInt y" "parseInt lo"
                       "10 * parseInt a + parseInt b", OF b(2) le(2)]
         dec_eq [of "parseInt b" "parseInt y" "parseInt a" "parseInt x", OF b(1) le(1)]
    show ?thesis using 4 d assms(2-)
      by (auto simp add: leading_in_3 Lit_digit Range_digit simp del: atom_matches.simps)
  qed (simp_all add: leading_in_3)
qed

lemma seq3_lit_digits:
  assumes "list_all is_digit ds" "is_digit x" "is_digit y" "is_digit z"
  shows "match_seq [Lit x, Lit y, Lit z] ds =
           leading_in 3 (10 * (10 * parseInt x + parseInt y) + parseInt z)
                        (10 * (10 * parseInt x + parseInt y) + parseInt z) ds"
proof -
  have le: "parseInt y \<le> 9" "parseInt z \<le> 9" using assms by (simp_all add: parseInt_le)
  consider "ds = []" | a where "ds = [a]" | a b where "ds = [a, b]"
    | a b c r where "ds = a # b # c # r"
    by (metis list.exhaust)
  then show ?thesis
  proof cases
    case 4
    with assms have d: "is_digit a" "is_digit b" "is_digit c" by simp_all
    then have b: "parseInt b \<le> 9" "parseInt c \<le> 9" by (simp_all add: parseInt_le)
    from dec_range [of "parseInt c" "parseInt z" "10 * parseInt x + parseInt y" "parseInt z"
                       "10 * parseInt a + parseInt b", OF b(2) le(2)]
         dec_eq [of "parseInt b" "parseInt y" "parseInt a" "parseInt x", OF b(1) le(1)]
    show ?thesis using 4 d assms(2-)
      by (auto simp add: leading_in_3 Lit_digit simp del: atom_matches.simps)
  qed (simp_all add: leading_in_3)
qed

lemma seq4_digits:
  assumes "list_all is_digit ds" "is_digit x" "is_digit y" "is_digit z" "is_digit w"
  shows "match_seq [Lit x, Lit y, Lit z, Lit w] ds =
           leading_in 4 (10 * (10 * (10 * parseInt x + parseInt y) + parseInt z) + parseInt w)
                        (10 * (10 * (10 * parseInt x + parseInt y) + parseInt z) + parseInt w) ds"
proof -
  have le: "parseInt y \<le> 9" "parseInt z \<le> 9" "parseInt w \<le> 9"
    using assms by (simp_all add: parseInt_le)
  consider "ds = []" | a where "ds = [a]" | a b where "ds = [a, b]"
    | a b c where "ds = [a, b, c]" | a b c d r where "ds = a # b # c # d # r"
    by (metis list.exhaust)
  then show ?thesis
  proof cases
    case 5
    with assms have dg: "is_digit a" "is_digit b" "is_digit c" "is_digit d" by simp_all
    then have b: "parseInt b \<le> 9" "parseInt c \<le> 9" "parseInt d \<le> 9"
      by (simp_all add: parseInt_le)
    from dec_range [of "parseInt d" "parseInt w"
                       "10 * (10 * parseInt x + parseInt y) + parseInt z" "parseInt w"
                       "10 * (10 * parseInt a + parseInt b) + parseInt c", OF b(3) le(3)]
         dec_eq [of "parseInt c" "parseInt z" "10 * parseInt a + parseInt b"
                    "10 * parseInt x + parseInt y", OF b(2) le(2)]
         dec_eq [of "parseInt b" "parseInt y" "parseInt a" "parseInt x", OF b(1) le(1)]
    show ?thesis using 5 dg assms(2-)
      by (auto simp add: leading_in_4 Lit_digit simp del: atom_matches.simps)
  qed (simp_all add: leading_in_4)
qed

lemma discover_test:
  assumes "list_all is_digit ds"
  shows "test [[Lit CHR ''6'', Lit CHR ''0'', Lit CHR ''1'', Lit CHR ''1''],
               [Lit CHR ''6'', Lit CHR ''5''],
               [Lit CHR ''6'', Lit CHR ''4'', Range CHR ''4'' CHR ''9''],
               [Lit CHR ''6'', Lit CHR ''2'', Lit CHR ''2'']] ds
         = (leading_in 4 6011 6011 ds \<or> leading_in 2 65 65 ds
            \<or> leading_in 3 644 649 ds \<or> leading_in 3 622 622 ds)"
proof -
  have a: "match_seq [Lit CHR ''6'', Lit CHR ''0'', Lit CHR ''1'', Lit CHR ''1''] ds
           = leading_in 4 6011 6011 ds"
    using seq4_digits [OF assms, of "CHR ''6''" "CHR ''0''" "CHR ''1''" "CHR ''1''"]
    by (simp add: digit_literals del: match_seq.simps)
  have b: "match_seq [Lit CHR ''6'', Lit CHR ''5''] ds = leading_in 2 65 65 ds"
    using seq2_digits [OF assms, of "CHR ''6''" "CHR ''5''"]
    by (simp add: digit_literals del: match_seq.simps)
  have c: "match_seq [Lit CHR ''6'', Lit CHR ''4'', Range CHR ''4'' CHR ''9''] ds
           = leading_in 3 644 649 ds"
    using seq3_digits [OF assms, of "CHR ''6''" "CHR ''4''" "CHR ''4''" "CHR ''9''"]
    by (simp add: digit_literals del: match_seq.simps)
  have d: "match_seq [Lit CHR ''6'', Lit CHR ''2'', Lit CHR ''2''] ds = leading_in 3 622 622 ds"
    using seq3_lit_digits [OF assms, of "CHR ''6''" "CHR ''2''" "CHR ''2''"]
    by (simp add: digit_literals del: match_seq.simps)
  show ?thesis
    by (simp add: test_def a b c d del: match_seq.simps)
qed

lemma first_match_spec:
  assumes "list_all is_digit ds"
  shows "first_match patterns ds = spec_detectBrand ds"
  by (simp add: patterns_def spec_detectBrand_def visa_test [OF assms]
        mastercard_test [OF assms] amex_test [OF assms] discover_test [OF assms])

lemma detectCardType_spec: "detectCardType s = spec_detectBrand (replace_non_digits s)"
proof (cases "s = []")
  case True
  then show ?thesis
    by (simp add: detectCardType_def replace_non_digits_def spec_detectBrand_def leading_in_def)
next
  case False
  with first_match_spec [OF replace_non_digits_all [of s]] show ?thesis
    by (simp add: detectCardType_def)
qed

text \<open>
  \<^bold>\<open>Claim C6.\<close> On the digits of its argument, and so on every normalised digit string
  itself, \<open>detectCardType\<close> tries visa (first digit 4), mastercard (first two digits
  between 51 and 55), amex (first two digits 34 or 37) and discover (first four digits
  6011, first two digits 65, first three digits between 644 and 649, or first three digits
  622) in this order and returns the first that applies (\<open>spec_detectBrand\<close>). It returns
  no brand when nothing applies, on the empty string and on a string without any digit.
  Being a function of its argument alone, it is deterministic and has no effect.
\<close>

theorem C6_detectCardType_precedence:
  "detectCardType s = spec_detectBrand (replace_non_digits s)
   \<and> detectCardType (replace_non_digits s) = spec_detectBrand (replace_non_digits s)
   \<and> detectCardType [] = None
   \<and> detectCardType (filter (\<lambda>c. \<not> is_digit c) s) = None"
proof -
  have "replace_non_digits (filter (\<lambda>c. \<not> is_digit c) s) = []"
    by (simp add: replace_non_digits_def)
  then have "detectCardType (filter (\<lambda>c. \<not> is_digit c) s) = None"
    by (simp add: detectCardType_spec spec_detectBrand_def leading_in_def)
  moreover have "detectCardType [] = None" by (simp add: detectCardType_def)
  ultimately show ?thesis
    by (simp add: detectCardType_spec replace_non_digits_idem)
qed

theorem C6_detectCardType_examples:
  "detectCardType ''4242424242424242'' = Some ''visa''
   \<and> detectCardType ''5105105105105100'' = Some ''mastercard''
   \<and> detectCardType ''378282246310005'' = Some ''amex''
   \<and> detectCardType ''6011111111111117'' = Some ''discover''
   \<and> detectCardType ''6221'' = Some ''discover''
   \<and> detectCardType ''1111'' = None"
proof -
  have a: "spec_detectBrand (replace_non_digits ''4242424242424242'') = Some ''visa''"
    by code_simp
  have b: "spec_detectBrand (replace_non_digits ''5105105105105100'') = Some ''mastercard''"
    by code_simp
  have c: "spec_detectBrand (replace_non_digits ''378282246310005'') = Some ''amex''"
    by code_simp
  have d: "spec_detectBrand (replace_non_digits ''6011111111111117'') = Some ''discover''"
    by code_simp
  have e: "spec_detectBrand (replace_non_digits ''6221'') = Some ''discover''"
    by code_simp
  have f: "spec_detectBrand (replace_non_digits ''1111'') = None"
    by code_simp
  show ?thesis
    using C6_detectCardType_precedence [of "''4242424242424242''"]
          C6_detectCardType_precedence [of "''5105105105105100''"]
          C6_detectCardType_precedence [of "''378282246310005''"]
          C6_detectCardType_precedence [of "''6011111111111117''"]
          C6_detectCardType_precedence [of "''6221''"]
          C6_detectCardType_precedence [of "''1111''"]
    by (simp only: a b c d e f)
qed

section \<open>Error classification and propagation\<close>

lemma catch_block_typed: "catch_block m t (VGE e) = e"
  by (simp add: catch_block_def)

lemma catch_block_untyped:
  "catch_block m t (Other cause) =
     \<lparr>message = m, etype = t, details = Some (Caught cause), statusCode = None\<rparr>"
  by (simp add: catch_block_def new_VizionGatewayError_def)

lemma svc_catch_block_typed: "svc_catch_block m c (Svc_VGE e) = e"
  by (simp add: svc_catch_block_def)

lemma svc_catch_block_untyped:
  "svc_catch_block m c (Svc_Other cause) = \<lparr>svc_message = m, code = c, svc_statusCode = 500\<rparr>"
  by (simp add: svc_catch_block_def svc_new_VizionGatewayError_def)

lemma try_read_rejected:
  "try_read m t p (http (Rejected e)) = Inl (catch_block m t (response_interceptor e))"
  by (simp add: try_read_def http_def)

lemma try_read_record:
  "response_interceptor e = VGE r \<Longrightarrow> try_read m t p (http (Rejected e)) = Inl r"
  by (simp add: try_read_rejected catch_block_typed)

lemma interceptor_builds_record_iff:
  "(\<exists>r. response_interceptor e = VGE r)
   = (case response e of
        None \<Rightarrow> True
      | Some (status, body) \<Rightarrow> status = 401 \<or> (\<exists>d. body = Data d))"
  by (cases "response e")
     (auto simp: response_interceptor_def TypeError_read_def
           split: nullable.splits if_splits)

lemma null_body_reaches_catch_block:
  assumes "status \<noteq> 401"
  shows "processCardPayment
           (http (Rejected \<lparr>response = Some (status, IsNull), request = r, error_message = m\<rparr>))
         = Inl \<lparr>message = ''Failed to process card payment'', etype = PAYMENT_PROCESSING,
                details = Some (Caught (''Cannot read properties of null (reading ''
                                        @ [CHR 0x27] @ ''message'' @ [CHR 0x27] @ '')'')),
                statusCode = None\<rparr>"
  using assms
  by (simp add: processCardPayment_def try_read_rejected response_interceptor_def
        TypeError_read_def catch_block_untyped)


lemma svc_try_rejected:
  "svc_try m c (svc_apiClient (Svc_Rejected e)) = Inl (svc_response_interceptor e)"
  by (simp add: svc_try_def svc_apiClient_def svc_catch_block_typed)





text \<open>
  \<^bold>\<open>Claim C4.\<close> An error that is a VizionGatewayError already when one of the operations
  catches it is thrown again as it is, with its kind, message, details and status code:
  this holds for the four operations of \<^verbatim>\<open>client.ts\<close> and for the four of
  \<^verbatim>\<open>payment-service.ts\<close>. The two forms hand such an error to \<^verbatim>\<open>onError\<close> as it is
  as well. An error record is built from a raw transport outcome in the interceptor
  alone.
\<close>

theorem C4_typed_errors_rethrown_unchanged:
  "processCardPayment (Inl (VGE e)) = Inl e
   \<and> getTransaction (Inl (VGE e)) = Inl e
   \<and> listTransactions (Inl (VGE e)) = Inl e
   \<and> refundTransaction (Inl (VGE e)) = Inl e
   \<and> svc_processCardPayment (Inl (Svc_VGE e')) = Inl e'
   \<and> svc_getTransaction (Inl (Svc_VGE e')) = Inl e'
   \<and> svc_listTransactions (Inl (Svc_VGE e')) = Inl e'
   \<and> svc_processRefund (Inl (Svc_VGE e')) = Inl e'
   \<and> callbacks (handleSubmit_settled (Inl e) f) = callbacks f @ [OnError e]
   \<and> svc_callbacks (svc_handleSubmit_settled (Inl (Svc_VGE e')) g)
       = svc_callbacks g @ [Svc_OnError e']"
proof -
  have a: "callbacks (handleSubmit_settled (Inl e) f) = callbacks f @ [OnError e]"
    by (simp add: handleSubmit_settled_def showError_def Let_def)
  have b: "svc_callbacks (svc_handleSubmit_settled (Inl (Svc_VGE e')) g)
           = svc_callbacks g @ [Svc_OnError e']"
    by (simp add: svc_handleSubmit_settled_def Let_def)
  show ?thesis
    by (simp add: a b processCardPayment_def getTransaction_def listTransactions_def
          refundTransaction_def try_read_def catch_block_typed
          svc_processCardPayment_def svc_getTransaction_def svc_listTransactions_def
          svc_processRefund_def svc_try_def svc_catch_block_typed)
qed

text \<open>
  \<^bold>\<open>Claim C3\<close> fails as stated: an error the interceptor classified as API reaches the
  caller of \<open>processCardPayment\<close> with the kind API, not PAYMENT_PROCESSING, because the
  catch block throws every VizionGatewayError again as it is.
\<close>

theorem C3_api_error_not_relabelled_counterexample:
  "response_interceptor
      \<lparr>response = Some (500, Data \<lparr>data_message = JStr ''boom'', data_errors = JUndefined\<rparr>),
       request = True, error_message = JUndefined\<rparr>
     = VGE \<lparr>message = ''boom'', etype = API, details = None, statusCode = None\<rparr>
   \<and> (processCardPayment (http (Rejected
        \<lparr>response = Some (500, Data \<lparr>data_message = JStr ''boom'',
                                       data_errors = JUndefined\<rparr>),
         request = True, error_message = JUndefined\<rparr>)) :: VizionGatewayError + string)
       = Inl \<lparr>message = ''boom'', etype = API, details = None, statusCode = None\<rparr>"
proof -
  have i: "response_interceptor
      \<lparr>response = Some (500, Data \<lparr>data_message = JStr ''boom'', data_errors = JUndefined\<rparr>),
       request = True, error_message = JUndefined\<rparr>
     = VGE \<lparr>message = ''boom'', etype = API, details = None, statusCode = None\<rparr>"
    by (simp add: response_interceptor_def new_VizionGatewayError_def js_or_value_def
          as_details_def)
  show ?thesis
    by (simp add: i processCardPayment_def try_read_record [OF i])
qed

text \<open>
  \<^bold>\<open>Claim C3, amended.\<close> Every error record an interceptor builds from a transport
  failure, of the kinds API and UNKNOWN as of the kinds AUTHENTICATION, VALIDATION and
  NETWORK, reaches the caller of each operation unchanged, in \<^verbatim>\<open>client.ts\<close> and in
  \<^verbatim>\<open>payment-service.ts\<close>. An operation builds an error of its own only when it catches
  something that is no VizionGatewayError: the record then has the fixed message of the
  operation, not the message of what was caught, and the kind PAYMENT_PROCESSING for
  processing a payment, REFUND_PROCESSING for a refund and, for fetching and listing
  transactions, API in \<^verbatim>\<open>client.ts\<close> and TRANSACTION_RETRIEVAL in
  \<^verbatim>\<open>payment-service.ts\<close>; \<^verbatim>\<open>client.ts\<close> keeps what was caught as the details.
\<close>

theorem C3_classified_errors_pass_through:
  "(response_interceptor e = VGE r \<longrightarrow>
      processCardPayment (http (Rejected e)) = Inl r
      \<and> getTransaction (http (Rejected e)) = Inl r
      \<and> listTransactions (http (Rejected e)) = Inl r
      \<and> refundTransaction (http (Rejected e)) = Inl r)
   \<and> svc_processCardPayment (svc_apiClient (Svc_Rejected e')) = Inl (svc_response_interceptor e')
   \<and> svc_getTransaction (svc_apiClient (Svc_Rejected e')) = Inl (svc_response_interceptor e')
   \<and> svc_listTransactions (svc_apiClient (Svc_Rejected e')) = Inl (svc_response_interceptor e')
   \<and> svc_processRefund (svc_apiClient (Svc_Rejected e')) = Inl (svc_response_interceptor e')
   \<and> processCardPayment (Inl (Other cause))
       = Inl \<lparr>message = ''Failed to process card payment'', etype = PAYMENT_PROCESSING,
              details = Some (Caught cause), statusCode = None\<rparr>
   \<and> getTransaction (Inl (Other cause))
       = Inl \<lparr>message = ''Failed to retrieve transaction'', etype = API,
              details = Some (Caught cause), statusCode = None\<rparr>
   \<and> listTransactions (Inl (Other cause))
       = Inl \<lparr>message = ''Failed to list transactions'', etype = API,
              details = Some (Caught cause), statusCode = None\<rparr>
   \<and> refundTransaction (Inl (Other cause))
       = Inl \<lparr>message = ''Failed to process refund'', etype = REFUND_PROCESSING,
              details = Some (Caught cause), statusCode = None\<rparr>
   \<and> svc_processCardPayment (Inl (Svc_Other cause))
       = Inl \<lparr>svc_message = ''Failed to process card payment'',
              code = ''payment_processing_error'', svc_statusCode = 500\<rparr>
   \<and> svc_getTransaction (Inl (Svc_Other cause))
       = Inl \<lparr>svc_message = ''Failed to retrieve transaction'',
              code = ''transaction_retrieval_error'', svc_statusCode = 500\<rparr>
   \<and> svc_listTransactions (Inl (Svc_Other cause))
       = Inl \<lparr>svc_message = ''Failed to list transactions'',
              code = ''transaction_retrieval_error'', svc_statusCode = 500\<rparr>
   \<and> svc_processRefund (Inl (Svc_Other cause))
       = Inl \<lparr>svc_message = ''Failed to process refund'',
              code = ''refund_processing_error'', svc_statusCode = 500\<rparr>"
proof -
  have a: "response_interceptor e = VGE r \<longrightarrow>
      processCardPayment (http (Rejected e)) = Inl r
      \<and> getTransaction (http (Rejected e)) = Inl r
      \<and> listTransactions (http (Rejected e)) = Inl r
      \<and> refundTransaction (http (Rejected e)) = Inl r"
    by (simp add: processCardPayment_def getTransaction_def listTransactions_def
          refundTransaction_def try_read_record)
  have b: "svc_processCardPayment (svc_apiClient (Svc_Rejected e')) = Inl (svc_response_interceptor e')"
    "svc_getTransaction (svc_apiClient (Svc_Rejected e')) = Inl (svc_response_interceptor e')"
    "svc_listTransactions (svc_apiClient (Svc_Rejected e')) = Inl (svc_response_interceptor e')"
    "svc_processRefund (svc_apiClient (Svc_Rejected e')) = Inl (svc_response_interceptor e')"
    by (simp_all add: svc_processCardPayment_def svc_getTransaction_def
          svc_listTransactions_def svc_processRefund_def svc_try_rejected)
  have c: "processCardPayment (Inl (Other cause))
       = Inl \<lparr>message = ''Failed to process card payment'', etype = PAYMENT_PROCESSING,
              details = Some (Caught cause), statusCode = None\<rparr>"
    "getTransaction (Inl (Other cause))
       = Inl \<lparr>message = ''Failed to retrieve transaction'', etype = API,
              details = Some (Caught cause), statusCode = None\<rparr>"
    "listTransactions (Inl (Other cause))
       = Inl \<lparr>message = ''Failed to list transactions'', etype = API,
              details = Some (Caught cause), statusCode = None\<rparr>"
    "refundTransaction (Inl (Other cause))
       = Inl \<lparr>message = ''Failed to process refund'', etype = REFUND_PROCESSING,
              details = Some (Caught cause), statusCode = None\<rparr>"
    by (simp_all add: processCardPayment_def getTransaction_def listTransactions_def
          refundTransaction_def try_read_def catch_block_untyped)
  have d: "svc_processCardPayment (Inl (Svc_Other cause))
       = Inl \<lparr>svc_message = ''Failed to process card payment'',
              code = ''payment_processing_error'', svc_statusCode = 500\<rparr>"
    "svc_getTransaction (Inl (Svc_Other cause))
       = Inl \<lparr>svc_message = ''Failed to retrieve transaction'',
              code = ''transaction_retrieval_error'', svc_statusCode = 500\<rparr>"
    "svc_listTransactions (Inl (Svc_Other cause))
       = Inl \<lparr>svc_message = ''Failed to list transactions'',
              code = ''transaction_retrieval_error'', svc_statusCode = 500\<rparr>"
    "svc_processRefund (Inl (Svc_Other cause))
       = Inl \<lparr>svc_message = ''Failed to process refund'',
              code = ''refund_processing_error'', svc_statusCode = 500\<rparr>"
    by (simp_all add: svc_processCardPayment_def svc_getTransaction_def
          svc_listTransactions_def svc_processRefund_def svc_try_def svc_catch_block_untyped
          PAYMENT_PROCESSING_ERROR_def TRANSACTION_RETRIEVAL_ERROR_def
          REFUND_PROCESSING_ERROR_def)
  from a show ?thesis
    by (simp only: b c d simp_thms)
qed

theorem C3_classified_errors_pass_through_witness:
  "response_interceptor
      \<lparr>response = Some (500, Data \<lparr>data_message = JStr ''boom'', data_errors = JUndefined\<rparr>),
       request = True, error_message = JUndefined\<rparr>
     = VGE \<lparr>message = ''boom'', etype = API, details = None, statusCode = None\<rparr>
   \<and> (refundTransaction (http (Rejected
        \<lparr>response = Some (500, Data \<lparr>data_message = JStr ''boom'',
                                       data_errors = JUndefined\<rparr>),
         request = True, error_message = JUndefined\<rparr>)) :: VizionGatewayError + string)
       = Inl \<lparr>message = ''boom'', etype = API, details = None, statusCode = None\<rparr>
   \<and> response_interceptor
        \<lparr>response = None, request = False, error_message = JStr ''bad config''\<rparr>
     = VGE \<lparr>message = ''bad config'', etype = UNKNOWN, details = None, statusCode = None\<rparr>
   \<and> (getTransaction (http (Rejected
        \<lparr>response = None, request = False, error_message = JStr ''bad config''\<rparr>))
        :: VizionGatewayError + string)
       = Inl \<lparr>message = ''bad config'', etype = UNKNOWN, details = None, statusCode = None\<rparr>"
proof -
  have i: "response_interceptor
      \<lparr>response = Some (500, Data \<lparr>data_message = JStr ''boom'', data_errors = JUndefined\<rparr>),
       request = True, error_message = JUndefined\<rparr>
     = VGE \<lparr>message = ''boom'', etype = API, details = None, statusCode = None\<rparr>"
    by (simp add: response_interceptor_def new_VizionGatewayError_def js_or_value_def
          as_details_def)
  have j: "response_interceptor
        \<lparr>response = None, request = False, error_message = JStr ''bad config''\<rparr>
     = VGE \<lparr>message = ''bad config'', etype = UNKNOWN, details = None, statusCode = None\<rparr>"
    by (simp add: response_interceptor_def new_VizionGatewayError_def js_or_value_def)
  let ?e = "\<lparr>response = Some (500, Data \<lparr>data_message = JStr ''boom'',
                                               data_errors = JUndefined\<rparr>),
                 request = True, error_message = JUndefined\<rparr>"
  let ?r = "\<lparr>message = ''boom'', etype = API, details = None, statusCode = None\<rparr>"
  let ?e' = "\<lparr>response = None, request = False, error_message = JStr ''bad config''\<rparr>"
  let ?r' = "\<lparr>message = ''bad config'', etype = UNKNOWN, details = None,
                 statusCode = None\<rparr>"
  have a: "response_interceptor ?e = VGE ?r \<longrightarrow>
      (processCardPayment (http (Rejected ?e)) :: VizionGatewayError + string) = Inl ?r
      \<and> (getTransaction (http (Rejected ?e)) :: VizionGatewayError + string) = Inl ?r
      \<and> (listTransactions (http (Rejected ?e)) :: VizionGatewayError + string) = Inl ?r
      \<and> (refundTransaction (http (Rejected ?e)) :: VizionGatewayError + string) = Inl ?r"
    by (rule conjunct1 [OF C3_classified_errors_pass_through])
  have b: "response_interceptor ?e' = VGE ?r' \<longrightarrow>
      (processCardPayment (http (Rejected ?e')) :: VizionGatewayError + string) = Inl ?r'
      \<and> (getTransaction (http (Rejected ?e')) :: VizionGatewayError + string) = Inl ?r'
      \<and> (listTransactions (http (Rejected ?e')) :: VizionGatewayError + string) = Inl ?r'
      \<and> (refundTransaction (http (Rejected ?e')) :: VizionGatewayError + string) = Inl ?r'"
    by (rule conjunct1 [OF C3_classified_errors_pass_through])
  from a b i j show ?thesis by simp
qed



section \<open>The payment forms\<close>

lemma step_in_flight:
  assumes "pending f \<le> 1" "isSubmitting f = (pending f = 1)"
  shows "pending (step f ev) \<le> 1 \<and> isSubmitting (step f ev) = (pending (step f ev) = 1)"
proof (cases ev)
  case (Input v)
  with assms show ?thesis
    by (simp add: handleCardNumberInput_def Let_def split: option.splits)
next
  case (Edit fld v)
  with assms show ?thesis by (cases fld) simp_all
next
  case Blur
  with assms show ?thesis by (simp add: PaymentForm_validateCardNumber_def Let_def)
next
  case Submit
  with assms show ?thesis by (auto simp: handleSubmit_def clearError_def Let_def)
next
  case (Settled outcome)
  with assms show ?thesis
    by (auto simp: handleSubmit_settled_def showError_def reset_def Let_def split: sum.splits)
qed

lemma run_in_flight:
  assumes "pending f \<le> 1" "isSubmitting f = (pending f = 1)"
  shows "pending (run f evs) \<le> 1 \<and> isSubmitting (run f evs) = (pending (run f evs) = 1)"
  using assms
proof (induction evs arbitrary: f)
  case Nil
  then show ?case by (simp add: run_def)
next
  case (Cons ev evs)
  from step_in_flight [OF Cons.prems, of ev] Cons.IH [of "step f ev"]
  show ?case by (simp add: run_def)
qed

lemma render_in_flight:
  "pending (run render evs) \<le> 1
   \<and> isSubmitting (run render evs) = (pending (run render evs) = 1)"
  by (rule run_in_flight) (simp_all add: render_def)

lemma submit_ignored: "isSubmitting f \<Longrightarrow> handleSubmit f = f"
  by (simp add: handleSubmit_def)

lemma settled_clears: "\<not> isSubmitting (handleSubmit_settled outcome f)"
  by (simp add: handleSubmit_settled_def Let_def)

lemma settled_pending: "pending (handleSubmit_settled outcome f) = pending f - 1"
  by (cases outcome) (simp_all add: handleSubmit_settled_def showError_def reset_def Let_def)

lemma flagged_not_valid: "cardNumber_customValidity f \<noteq> [] \<Longrightarrow> \<not> checkValidity (clearError f)"
  by (simp add: checkValidity_def input_valid_def clearError_def)

lemma flagged_submit:
  assumes "cardNumber_customValidity f \<noteq> []"
  shows "calls (handleSubmit f) = calls f \<and> pending (handleSubmit f) = pending f
         \<and> isSubmitting (handleSubmit f) = isSubmitting f"
  using flagged_not_valid [OF assms]
  by (simp add: handleSubmit_def Let_def) (simp add: clearError_def)

lemma blur_flag:
  "(cardNumber_customValidity (PaymentForm_validateCardNumber f) \<noteq> [])
   = (replace_spaces (cardNumber_value f) \<noteq> []
      \<and> \<not> validateCardNumber (replace_spaces (cardNumber_value f)))"
  by (simp add: PaymentForm_validateCardNumber_def Let_def)

lemma blur_keeps:
  "calls (PaymentForm_validateCardNumber f) = calls f
   \<and> pending (PaymentForm_validateCardNumber f) = pending f
   \<and> isSubmitting (PaymentForm_validateCardNumber f) = isSubmitting f"
  by (simp add: PaymentForm_validateCardNumber_def Let_def)

text \<open>
  \<^bold>\<open>Claim C7\<close> fails as stated: the form of \<^verbatim>\<open>components/payment-form.ts\<close> never calls the
  validator. Its \<^verbatim>\<open>handleSubmit\<close> builds the request and calls \<^verbatim>\<open>processCardPayment\<close>
  with a card number that \<open>validateCardNumber\<close> rejects.
\<close>

theorem C7_unvalidated_submit_counterexample:
  "\<not> validateCardNumber ''4242424242424241''
   \<and> svc_calls (svc_handleSubmit
        ((svc_mount ''Pay'')
           \<lparr>svc_card_number_value := ''4242 4242 4242 4241'', svc_expiry_value := ''12 / 30'',
            svc_cvc_value := ''123'', svc_cardholder_name_value := ''Jane Doe''\<rparr>))
       = [\<lparr>number = ''4242424242424241'', card_expiryMonth = ''12'',
           card_expiryYear = ''30'', cvc = ''123'', holderName = ''Jane Doe''\<rparr>]"
  by code_simp

text \<open>
  \<^bold>\<open>Claim C7, amended.\<close> In the form of \<^verbatim>\<open>paymentForm.ts\<close>, when the card number input
  loses the focus it is flagged with a custom validity message exactly if its value,
  white space removed, is not empty and \<open>validateCardNumber\<close> rejects it; and while the
  input is flagged, \<^verbatim>\<open>handleSubmit\<close> returns before it builds the card details: it makes no
  call of \<^verbatim>\<open>processCardPayment\<close> and does not set the flag \<^verbatim>\<open>isSubmitting\<close>. So a
  submit that follows the loss of focus on a rejected number reaches no transport. The
  form of \<^verbatim>\<open>components/payment-form.ts\<close> does not validate the card number.
\<close>

theorem C7_flagged_number_blocks_submit:
  "((cardNumber_customValidity (PaymentForm_validateCardNumber f) \<noteq> [])
     = (replace_spaces (cardNumber_value f) \<noteq> []
        \<and> \<not> validateCardNumber (replace_spaces (cardNumber_value f))))
   \<and> (cardNumber_customValidity f \<noteq> [] \<longrightarrow>
        calls (handleSubmit f) = calls f \<and> pending (handleSubmit f) = pending f
        \<and> isSubmitting (handleSubmit f) = isSubmitting f)
   \<and> (replace_spaces (cardNumber_value f) \<noteq> []
        \<and> \<not> validateCardNumber (replace_spaces (cardNumber_value f)) \<longrightarrow>
        calls (handleSubmit (PaymentForm_validateCardNumber f)) = calls f
        \<and> pending (handleSubmit (PaymentForm_validateCardNumber f)) = pending f
        \<and> isSubmitting (handleSubmit (PaymentForm_validateCardNumber f)) = isSubmitting f)"
proof -
  have "calls (handleSubmit (PaymentForm_validateCardNumber f)) = calls f
        \<and> pending (handleSubmit (PaymentForm_validateCardNumber f)) = pending f
        \<and> isSubmitting (handleSubmit (PaymentForm_validateCardNumber f)) = isSubmitting f"
    if "replace_spaces (cardNumber_value f) \<noteq> []"
       "\<not> validateCardNumber (replace_spaces (cardNumber_value f))"
  proof -
    from that have "cardNumber_customValidity (PaymentForm_validateCardNumber f) \<noteq> []"
      by (simp add: blur_flag)
    from flagged_submit [OF this] show ?thesis by (simp add: blur_keeps)
  qed
  with blur_flag [of f] flagged_submit [of f] show ?thesis by blast
qed

theorem C7_flagged_number_blocks_submit_witness:
  "replace_spaces (cardNumber_value
      (run render [Edit CardholderName ''Jane Doe'', Input ''4242424242424241'',
                   Edit ExpiryMonth ''12'', Edit ExpiryYear ''2030'', Edit Cvv ''123''])) \<noteq> []
   \<and> \<not> validateCardNumber (replace_spaces (cardNumber_value
      (run render [Edit CardholderName ''Jane Doe'', Input ''4242424242424241'',
                   Edit ExpiryMonth ''12'', Edit ExpiryYear ''2030'', Edit Cvv ''123''])))
   \<and> calls (run render [Edit CardholderName ''Jane Doe'', Input ''4242424242424241'',
                   Edit ExpiryMonth ''12'', Edit ExpiryYear ''2030'', Edit Cvv ''123'',
                   Blur, Submit]) = []"
proof -
  let ?f = "run render [Edit CardholderName ''Jane Doe'', Input ''4242424242424241'',
                   Edit ExpiryMonth ''12'', Edit ExpiryYear ''2030'', Edit Cvv ''123'']"
  have v: "cardNumber_value ?f = ''4242 4242 4242 4241''" by code_simp
  have a: "replace_spaces ''4242 4242 4242 4241'' = ''4242424242424241''" by code_simp
  have b: "\<not> validateCardNumber ''4242424242424241''" by code_simp
  have c: "calls ?f = []" by code_simp
  have d: "run render [Edit CardholderName ''Jane Doe'', Input ''4242424242424241'',
                   Edit ExpiryMonth ''12'', Edit ExpiryYear ''2030'', Edit Cvv ''123'',
                   Blur, Submit] = handleSubmit (PaymentForm_validateCardNumber ?f)"
    by (simp add: run_def)
  show ?thesis
    using C7_flagged_number_blocks_submit [of ?f]
    by (simp only: v a b c d) simp
qed

text \<open>
  \<^bold>\<open>Claim C8\<close> fails as stated: the form of \<^verbatim>\<open>components/payment-form.ts\<close> has no flag.
  Its \<^verbatim>\<open>handleSubmit\<close> disables the submit button and does not look at it again, so a
  second submit event that reaches it while the first call is outstanding makes a second
  call.
\<close>

theorem C8_no_flag_counterexample:
  "svc_pending (svc_handleSubmit
      ((svc_mount ''Pay'')
         \<lparr>svc_card_number_value := ''4111 1111 1111 1111'', svc_expiry_value := ''12 / 30'',
          svc_cvc_value := ''123'', svc_cardholder_name_value := ''Jane Doe''\<rparr>)) = 1
   \<and> length (svc_calls (svc_handleSubmit (svc_handleSubmit
      ((svc_mount ''Pay'')
         \<lparr>svc_card_number_value := ''4111 1111 1111 1111'', svc_expiry_value := ''12 / 30'',
          svc_cvc_value := ''123'', svc_cardholder_name_value := ''Jane Doe''\<rparr>)))) = 2"
  by code_simp

text \<open>
  \<^bold>\<open>Claim C8, amended.\<close> The form of \<^verbatim>\<open>paymentForm.ts\<close> guards its submission with the flag
  \<^verbatim>\<open>isSubmitting\<close>. After every sequence of events (edits, loss of focus, submit events,
  settled calls) at most one call of \<^verbatim>\<open>processCardPayment\<close> is outstanding; a submit event
  that arrives while one is outstanding leaves the form as it is and makes no call; and
  once the outstanding call has settled, with a result or with an error, the flag is false
  and nothing is outstanding. The form of \<^verbatim>\<open>components/payment-form.ts\<close> has no such
  flag: it disables its submit button for the time of the call.
\<close>

theorem C8_reentrancy_flag:
  "pending (run render evs) \<le> 1
   \<and> (0 < pending (run render evs) \<longrightarrow>
        step (run render evs) Submit = run render evs
        \<and> calls (run render (evs @ [Submit])) = calls (run render evs)
        \<and> \<not> isSubmitting (step (run render evs) (Settled outcome))
        \<and> pending (step (run render evs) (Settled outcome)) = 0)"
proof -
  let ?f = "run render evs"
  note inv = render_in_flight [of evs]
  have "step ?f Submit = ?f" if "0 < pending ?f"
    using that inv by (simp add: submit_ignored)
  moreover have "run render (evs @ [Submit]) = step ?f Submit"
    by (simp add: run_def)
  moreover have "\<not> isSubmitting (step ?f (Settled outcome))
                 \<and> pending (step ?f (Settled outcome)) = 0"
    if "0 < pending ?f"
    using that inv by (simp add: settled_pending settled_clears)
  ultimately show ?thesis using inv by simp
qed

theorem C8_reentrancy_flag_witness:
  "0 < pending (run render
        [Edit CardholderName ''Jane Doe'', Input ''4111111111111111'', Blur,
         Edit ExpiryMonth ''12'', Edit ExpiryYear ''2030'', Edit Cvv ''123'', Submit])
   \<and> calls (run render
        [Edit CardholderName ''Jane Doe'', Input ''4111111111111111'', Blur,
         Edit ExpiryMonth ''12'', Edit ExpiryYear ''2030'', Edit Cvv ''123'', Submit, Submit])
      = [\<lparr>cardNumber = ''4111111111111111'', expiryMonth = ''12'', expiryYear = ''2030'',
          cvv = ''123'', cardholderName = ''Jane Doe''\<rparr>]
   \<and> \<not> isSubmitting (run render
        [Edit CardholderName ''Jane Doe'', Input ''4111111111111111'', Blur,
         Edit ExpiryMonth ''12'', Edit ExpiryYear ''2030'', Edit Cvv ''123'', Submit,
         Settled (Inr ''tx_1'')])
   \<and> \<not> isSubmitting (run render
        [Edit CardholderName ''Jane Doe'', Input ''4111111111111111'', Blur,
         Edit ExpiryMonth ''12'', Edit ExpiryYear ''2030'', Edit Cvv ''123'', Submit,
         Settled (Inl \<lparr>message = ''Network error. Please check your connection.'',
                       etype = NETWORK, details = None, statusCode = None\<rparr>)])"
proof -
  let ?evs = "[Edit CardholderName ''Jane Doe'', Input ''4111111111111111'', Blur,
         Edit ExpiryMonth ''12'', Edit ExpiryYear ''2030'', Edit Cvv ''123'', Submit]"
  have p: "pending (run render ?evs) = 1" by code_simp
  have c: "calls (run render ?evs)
           = [\<lparr>cardNumber = ''4111111111111111'', expiryMonth = ''12'', expiryYear = ''2030'',
               cvv = ''123'', cardholderName = ''Jane Doe''\<rparr>]" by code_simp
  have r: "run render (?evs @ [ev]) = step (run render ?evs) ev" for ev
    by (simp add: run_def)
  show ?thesis
    using C8_reentrancy_flag [of ?evs "Inr ''tx_1''"]
          C8_reentrancy_flag [of ?evs "Inl \<lparr>message = ''Network error. Please check your connection.'',
                       etype = NETWORK, details = None, statusCode = None\<rparr>"]
          r [of Submit] r [of "Settled (Inr ''tx_1'')"]
          r [of "Settled (Inl \<lparr>message = ''Network error. Please check your connection.'',
                       etype = NETWORK, details = None, statusCode = None\<rparr>)"]
    by (simp add: p c)
qed

end
